theory Spec2Isabelle
  imports Main
begin

section \<open>Python values and the built-ins the connector relies on\<close>

text \<open>
  The connector (\<^verbatim>\<open>supabase_mcp_connector.py\<close>) reads its settings from the process
  environment, issues one HTTP GET per call through \<^verbatim>\<open>requests\<close> and shapes the parsed JSON
  body. The values it handles are the ones \<^verbatim>\<open>response.json()\<close> produces. A Python float is
  observed by the program only through its truth value and its \<^verbatim>\<open>str()\<close>, so it is carried
  as exactly these two observations. Strings are byte strings; the built-ins below are
  exact on ASCII text.
\<close>

datatype pyfloat = PyFloat (nonzero: bool) (shown: string)

datatype json =
    JNull
  | JBool bool
  | JInt int
  | JFloat pyfloat
  | JStr string
  | JArr "json list"
  | JObj "(string \<times> json) list"

text \<open>
  Exceptions carry the text \<^verbatim>\<open>str(e)\<close> gives. \<open>RequestException\<close> stands for every
  instance of \<^verbatim>\<open>requests.exceptions.RequestException\<close> (connection errors, timeouts,
  \<^verbatim>\<open>HTTPError\<close>, and the JSON decoding error of the releases of \<^verbatim>\<open>requests\<close> that derive it
  from \<^verbatim>\<open>RequestException\<close>); the others are the built-in classes of the same name.
\<close>

datatype exn =
    RequestException string
  | ValueError string
  | KeyError string
  | TypeError string
  | IndexError string
  | AttributeError string

fun is_RequestException :: "exn \<Rightarrow> bool" where
  "is_RequestException (RequestException _) = True"
| "is_RequestException _ = False"

fun str_exn :: "exn \<Rightarrow> string" where
  "str_exn (RequestException m) = m"
| "str_exn (ValueError m) = m"
| "str_exn (KeyError m) = m"
| "str_exn (TypeError m) = m"
| "str_exn (IndexError m) = m"
| "str_exn (AttributeError m) = m"

subsection \<open>Strings\<close>

text \<open>\<^verbatim>\<open>sep.join(xs)\<close>.\<close>

fun str_join :: "string \<Rightarrow> string list \<Rightarrow> string" where
  "str_join sep [] = []"
| "str_join sep [x] = x"
| "str_join sep (x # y # ys) = x @ sep @ str_join sep (y # ys)"

text \<open>\<^verbatim>\<open>s.split(c)\<close> for a one-character separator: never empty, \<^verbatim>\<open>"".split(",") == [""]\<close>.\<close>

fun split_on :: "char \<Rightarrow> string \<Rightarrow> string list" where
  "split_on c [] = [[]]"
| "split_on c (x # xs) =
     (if x = c then [] # split_on c xs
      else (case split_on c xs of
              [] \<Rightarrow> [[x]]
            | w # ws \<Rightarrow> (x # w) # ws))"

text \<open>\<^verbatim>\<open>s.lower()\<close> on ASCII letters; other bytes are kept.\<close>

definition lower_char :: "char \<Rightarrow> char" where
  "lower_char c =
     (case map_of (zip ''ABCDEFGHIJKLMNOPQRSTUVWXYZ'' ''abcdefghijklmnopqrstuvwxyz'') c of
        None \<Rightarrow> c
      | Some l \<Rightarrow> l)"

definition lower :: "string \<Rightarrow> string" where
  "lower s = map lower_char s"

subsection \<open>Integers and their text\<close>

definition digit_val :: "char \<Rightarrow> nat option" where
  "digit_val c = map_of (zip ''0123456789'' [0, 1, 2, 3, 4, 5, 6, 7, 8, 9]) c"

definition digit_char :: "nat \<Rightarrow> char" where
  "digit_char d = ''0123456789'' ! (d mod 10)"

fun show_nat :: "nat \<Rightarrow> string" where
  "show_nat n = (if n < 10 then [digit_char n] else show_nat (n div 10) @ [digit_char n])"

declare show_nat.simps [simp del]

text \<open>\<^verbatim>\<open>str(i)\<close> for an integer.\<close>

definition show_int :: "int \<Rightarrow> string" where
  "show_int i = (if i < 0 then CHR ''-'' # show_nat (nat (- i)) else show_nat (nat i))"

text \<open>
  \<^verbatim>\<open>int(s)\<close> in base ten: surrounding white space is dropped, one sign is allowed, and the
  digits may be grouped by single underscores. \<open>None\<close> is the \<^verbatim>\<open>ValueError\<close>.
\<close>

definition is_space :: "char \<Rightarrow> bool" where
  "is_space c = (c \<in> set [CHR '' '', CHR 0x09, CHR 0x0A, CHR 0x0B, CHR 0x0C, CHR 0x0D])"

definition strip :: "string \<Rightarrow> string" where
  "strip s = rev (dropWhile is_space (rev (dropWhile is_space s)))"

fun more_digits :: "nat \<Rightarrow> string \<Rightarrow> nat option" where
  "more_digits acc [] = Some acc"
| "more_digits acc [c] =
     (case digit_val c of None \<Rightarrow> None | Some d \<Rightarrow> Some (10 * acc + d))"
| "more_digits acc (c # c' # cs) =
     (case digit_val c of
        Some d \<Rightarrow> more_digits (10 * acc + d) (c' # cs)
      | None \<Rightarrow>
          (if c = CHR ''_'' then
             (case digit_val c' of
                None \<Rightarrow> None
              | Some d \<Rightarrow> more_digits (10 * acc + d) cs)
           else None))"

definition digits :: "string \<Rightarrow> nat option" where
  "digits s =
     (case s of
        [] \<Rightarrow> None
      | c # cs \<Rightarrow> (case digit_val c of None \<Rightarrow> None | Some d \<Rightarrow> more_digits d cs))"

definition py_int :: "string \<Rightarrow> int option" where
  "py_int s =
     (case strip s of
        [] \<Rightarrow> None
      | c # cs \<Rightarrow>
          (if c = CHR ''-'' then map_option (\<lambda>n. - int n) (digits cs)
           else if c = CHR ''+'' then map_option int (digits cs)
           else map_option int (digits (c # cs))))"

subsection \<open>Text of a value: \<^verbatim>\<open>repr\<close> and \<^verbatim>\<open>str\<close>\<close>

definition hex_char :: "nat \<Rightarrow> char" where
  "hex_char d = ''0123456789abcdef'' ! (d mod 16)"

text \<open>
  One character of \<^verbatim>\<open>repr(s)\<close>, for the quote \<open>q\<close> that was chosen: the quote and the
  backslash are escaped, control characters are written as escapes.
\<close>

definition repr_char :: "char \<Rightarrow> char \<Rightarrow> string" where
  "repr_char q c =
     (if c = q \<or> c = CHR 0x5C then [CHR 0x5C, c]
      else if c = CHR 0x09 then [CHR 0x5C, CHR ''t'']
      else if c = CHR 0x0A then [CHR 0x5C, CHR ''n'']
      else if c = CHR 0x0D then [CHR 0x5C, CHR ''r'']
      else if of_char c < (32::nat) \<or> c = CHR 0x7F then
        [CHR 0x5C, CHR ''x'', hex_char (of_char c div 16), hex_char (of_char c)]
      else [c])"

definition repr_str :: "string \<Rightarrow> string" where
  "repr_str s =
     (let q = (if CHR 0x27 \<in> set s \<and> CHR 0x22 \<notin> set s then CHR 0x22 else CHR 0x27)
      in q # concat (map (repr_char q) s) @ [q])"

fun py_repr :: "json \<Rightarrow> string" where
  "py_repr JNull = ''None''"
| "py_repr (JBool b) = (if b then ''True'' else ''False'')"
| "py_repr (JInt i) = show_int i"
| "py_repr (JFloat f) = shown f"
| "py_repr (JStr s) = repr_str s"
| "py_repr (JArr xs) = ''['' @ str_join '', '' (map py_repr xs) @ '']''"
| "py_repr (JObj kvs) =
     ''{'' @ str_join '', '' (map (\<lambda>kv. repr_str (fst kv) @ '': '' @ py_repr (snd kv)) kvs) @ ''}''"

text \<open>\<^verbatim>\<open>str(v)\<close>: a string is itself, every other value is its \<^verbatim>\<open>repr\<close>.\<close>

fun py_str :: "json \<Rightarrow> string" where
  "py_str (JStr s) = s"
| "py_str v = py_repr v"

text \<open>The truth value \<^verbatim>\<open>not v\<close> negates.\<close>

fun truthy :: "json \<Rightarrow> bool" where
  "truthy JNull = False"
| "truthy (JBool b) = b"
| "truthy (JInt i) = (i \<noteq> 0)"
| "truthy (JFloat f) = nonzero f"
| "truthy (JStr s) = (s \<noteq> [])"
| "truthy (JArr xs) = (xs \<noteq> [])"
| "truthy (JObj kvs) = (kvs \<noteq> [])"

subsection \<open>Subscripting, iteration and \<^verbatim>\<open>dict.get\<close>\<close>

fun type_name :: "json \<Rightarrow> string" where
  "type_name JNull = ''NoneType''"
| "type_name (JBool _) = ''bool''"
| "type_name (JInt _) = ''int''"
| "type_name (JFloat _) = ''float''"
| "type_name (JStr _) = ''str''"
| "type_name (JArr _) = ''list''"
| "type_name (JObj _) = ''dict''"

definition quoted :: "string \<Rightarrow> string" where
  "quoted s = CHR 0x27 # s @ [CHR 0x27]"

text \<open>
  \<^verbatim>\<open>v[key]\<close> for a string key. A \<open>JObj\<close> holds the items of the parsed dict, whose keys are
  distinct; every other value raises.
\<close>

fun getitem_str :: "json \<Rightarrow> string \<Rightarrow> exn + json" where
  "getitem_str (JObj kvs) k =
     (case map_of kvs k of
        None \<Rightarrow> Inl (KeyError (repr_str k))
      | Some v \<Rightarrow> Inr v)"
| "getitem_str (JArr xs) k = Inl (TypeError ''list indices must be integers or slices, not str'')"
| "getitem_str (JStr s) k =
     Inl (TypeError (''string indices must be integers, not '' @ quoted ''str''))"
| "getitem_str v k = Inl (TypeError (quoted (type_name v) @ '' object is not subscriptable''))"

text \<open>\<^verbatim>\<open>v[i]\<close> for an integer index; a negative index counts from the end.\<close>

definition index_of :: "nat \<Rightarrow> int \<Rightarrow> nat option" where
  "index_of n i =
     (let j = (if i < 0 then int n + i else i)
      in if 0 \<le> j \<and> j < int n then Some (nat j) else None)"

fun getitem_int :: "json \<Rightarrow> int \<Rightarrow> exn + json" where
  "getitem_int (JArr xs) i =
     (case index_of (length xs) i of
        None \<Rightarrow> Inl (IndexError ''list index out of range'')
      | Some j \<Rightarrow> Inr (xs ! j))"
| "getitem_int (JStr s) i =
     (case index_of (length s) i of
        None \<Rightarrow> Inl (IndexError ''string index out of range'')
      | Some j \<Rightarrow> Inr (JStr [s ! j]))"
| "getitem_int (JObj kvs) i = Inl (KeyError (show_int i))"
| "getitem_int v i = Inl (TypeError (quoted (type_name v) @ '' object is not subscriptable''))"

text \<open>
  What \<^verbatim>\<open>for doc in v\<close> walks over: the elements of a list, the keys of a dict, the
  characters of a string.
\<close>

fun py_iter :: "json \<Rightarrow> exn + json list" where
  "py_iter (JArr xs) = Inr xs"
| "py_iter (JObj kvs) = Inr (map (\<lambda>kv. JStr (fst kv)) kvs)"
| "py_iter (JStr s) = Inr (map (\<lambda>c. JStr [c]) s)"
| "py_iter v = Inl (TypeError (quoted (type_name v) @ '' object is not iterable''))"

text \<open>\<^verbatim>\<open>v.get(key, default)\<close>: only a dict has the method.\<close>

fun dict_get :: "json \<Rightarrow> string \<Rightarrow> json \<Rightarrow> exn + json" where
  "dict_get (JObj kvs) k d =
     (case map_of kvs k of
        None \<Rightarrow> Inr d
      | Some v \<Rightarrow> Inr v)"
| "dict_get v k d =
     Inl (AttributeError (quoted (type_name v) @ '' object has no attribute '' @ quoted ''get''))"

text \<open>
  A dict display \<^verbatim>\<open>{k1: v1, k2: v2}\<close> stores its items from left to right: a key that is
  already there keeps its place and takes the new value.
\<close>

fun dict_set :: "('k \<times> 'v) list \<Rightarrow> 'k \<Rightarrow> 'v \<Rightarrow> ('k \<times> 'v) list" where
  "dict_set [] k v = [(k, v)]"
| "dict_set ((k', v') # kvs) k v =
     (if k' = k then (k, v) # kvs else (k', v') # dict_set kvs k v)"

text \<open>A list comprehension whose element expression may raise: the first exception ends it.\<close>

fun comprehension :: "('a \<Rightarrow> exn + 'b) \<Rightarrow> 'a list \<Rightarrow> exn + 'b list" where
  "comprehension f [] = Inr []"
| "comprehension f (x # xs) =
     (case f x of
        Inl e \<Rightarrow> Inl e
      | Inr y \<Rightarrow> (case comprehension f xs of Inl e \<Rightarrow> Inl e | Inr ys \<Rightarrow> Inr (y # ys)))"

section \<open>Configuration from the environment\<close>

text \<open>
  The module reads its settings once, at import. The environment is a map from variable
  names to their values; \<open>getenv\<close> is \<^verbatim>\<open>os.getenv(name)\<close> and \<open>getenv_default\<close> is
  \<^verbatim>\<open>os.getenv(name, default)\<close>.
\<close>

type_synonym environ = "string \<rightharpoonup> string"

definition getenv :: "environ \<Rightarrow> string \<Rightarrow> string option" where
  "getenv env name = env name"

definition getenv_default :: "environ \<Rightarrow> string \<Rightarrow> string \<Rightarrow> string" where
  "getenv_default env name d = (case env name of None \<Rightarrow> d | Some v \<Rightarrow> v)"

text \<open>\<^verbatim>\<open>not x\<close> for a value that is \<^verbatim>\<open>None\<close> or a string: \<^verbatim>\<open>None\<close> and the empty string are false.\<close>

definition not_set :: "string option \<Rightarrow> bool" where
  "not_set x = (case x of None \<Rightarrow> True | Some s \<Rightarrow> s = [])"

record config =
  SUPABASE_URL :: string
  SUPABASE_ANON_KEY :: string
  SUPABASE_TABLE :: string
  SEARCH_COLUMNS :: "string list"
  ID_COLUMN :: string
  TITLE_COLUMN :: string
  CONTENT_COLUMN :: string
  USE_LOCALTUNNEL :: bool
  LOCALTUNNEL_SUBDOMAIN :: "string option"
  REQUEST_TIMEOUT :: int

text \<open>
  Lines 22 to 35 of the module, in their order: \<^verbatim>\<open>int(...)\<close> of the timeout setting is
  evaluated before the two required settings are validated, so its \<^verbatim>\<open>ValueError\<close> comes
  first. \<open>Inl\<close> is the exception that ends the import: the process does not start.
\<close>

definition load_config :: "environ \<Rightarrow> exn + config" where
  "load_config env =
     (let url = getenv env ''SUPABASE_URL'';
          anon_key = getenv env ''SUPABASE_ANON_KEY'';
          table = getenv_default env ''SUPABASE_TABLE'' ''documents'';
          search_columns = split_on CHR '','' (getenv_default env ''SEARCH_COLUMNS'' ''title,content'');
          id_column = getenv_default env ''ID_COLUMN'' ''id'';
          title_column = getenv_default env ''TITLE_COLUMN'' ''title'';
          content_column = getenv_default env ''CONTENT_COLUMN'' ''content'';
          use_localtunnel = (lower (getenv_default env ''USE_LOCALTUNNEL'' ''false'') = ''true'');
          localtunnel_subdomain = getenv env ''LOCALTUNNEL_SUBDOMAIN'';
          timeout_text = getenv_default env ''REQUEST_TIMEOUT'' ''30''
      in case py_int timeout_text of
           None \<Rightarrow>
             Inl (ValueError (''invalid literal for int() with base 10: '' @ repr_str timeout_text))
         | Some request_timeout \<Rightarrow>
             (if not_set url \<or> not_set anon_key then
                Inl (ValueError
                  ''SUPABASE_URL and SUPABASE_ANON_KEY environment variables are required'')
              else
                Inr \<lparr> SUPABASE_URL = the url,
                      SUPABASE_ANON_KEY = the anon_key,
                      SUPABASE_TABLE = table,
                      SEARCH_COLUMNS = search_columns,
                      ID_COLUMN = id_column,
                      TITLE_COLUMN = title_column,
                      CONTENT_COLUMN = content_column,
                      USE_LOCALTUNNEL = use_localtunnel,
                      LOCALTUNNEL_SUBDOMAIN = localtunnel_subdomain,
                      REQUEST_TIMEOUT = request_timeout \<rparr>))"

section \<open>The HTTP exchange\<close>

text \<open>
  \<^verbatim>\<open>requests.get(url, headers=..., params=..., timeout=...)\<close> is the one effect of a call.
  The backing API is a function from the request to what \<^verbatim>\<open>requests.get\<close> does with it: it
  raises, or it returns a response. A response is what the connector reads of it: the
  status, the reason phrase and final URL (they only appear in the text of the
  \<^verbatim>\<open>HTTPError\<close>), and what \<^verbatim>\<open>response.json()\<close> raises or returns.
\<close>

record request =
  get_url :: string
  get_headers :: "(string \<times> string) list"
  get_params :: "(string \<times> string) list"
  get_timeout :: int

record response =
  status_code :: nat
  reason :: string
  response_url :: string
  json_result :: "exn + json"

type_synonym backend = "request \<Rightarrow> exn + response"

text \<open>
  \<^verbatim>\<open>response.raise_for_status()\<close> of \<^verbatim>\<open>requests\<close>: an \<^verbatim>\<open>HTTPError\<close> for a status from 400
  to 599, and nothing for any other status.
\<close>

definition raise_for_status :: "response \<Rightarrow> exn + unit" where
  "raise_for_status r =
     (if 400 \<le> status_code r \<and> status_code r < 500 then
        Inl (RequestException
          (show_nat (status_code r) @ '' Client Error: '' @ reason r @ '' for url: '' @ response_url r))
      else if 500 \<le> status_code r \<and> status_code r < 600 then
        Inl (RequestException
          (show_nat (status_code r) @ '' Server Error: '' @ reason r @ '' for url: '' @ response_url r))
      else Inr ())"

section \<open>SupabaseConnector\<close>

definition base_url :: "config \<Rightarrow> string" where
  "base_url cfg = SUPABASE_URL cfg @ ''/rest/v1''"

definition headers :: "config \<Rightarrow> (string \<times> string) list" where
  "headers cfg =
     dict_set (dict_set (dict_set []
       ''apikey'' (SUPABASE_ANON_KEY cfg))
       ''Authorization'' (''Bearer '' @ SUPABASE_ANON_KEY cfg))
       ''Content-Type'' ''application/json''"

subsection \<open>search_documents\<close>

text \<open>The loop of lines 58 to 60: one predicate per search column, appended in order.\<close>

definition or_conditions :: "config \<Rightarrow> string \<Rightarrow> string list" where
  "or_conditions cfg query =
     foldl (\<lambda>acc column. acc @ [column @ ''.ilike.%'' @ query @ ''%'']) [] (SEARCH_COLUMNS cfg)"

definition filter_param :: "config \<Rightarrow> string \<Rightarrow> string" where
  "filter_param cfg query = ''or=('' @ str_join '','' (or_conditions cfg query) @ '')''"

text \<open>
  The \<^verbatim>\<open>params\<close> dict of lines 67 to 70. The key and the value of the filter are the first
  and the second piece of \<^verbatim>\<open>filter_param.split('=')\<close>; a missing piece is an
  \<^verbatim>\<open>IndexError\<close>.
\<close>

definition piece :: "string list \<Rightarrow> nat \<Rightarrow> exn + string" where
  "piece xs i = (if i < length xs then Inr (xs ! i) else Inl (IndexError ''list index out of range''))"

definition search_params :: "config \<Rightarrow> string \<Rightarrow> exn + (string \<times> string) list" where
  "search_params cfg query =
     (case piece (split_on CHR ''='' (filter_param cfg query)) 0 of
        Inl e \<Rightarrow> Inl e
      | Inr k \<Rightarrow>
          (case piece (split_on CHR ''='' (filter_param cfg query)) 1 of
             Inl e \<Rightarrow> Inl e
           | Inr v \<Rightarrow> Inr (dict_set (dict_set [] ''select'' (ID_COLUMN cfg)) k v)))"

text \<open>Line 81: \<^verbatim>\<open>[str(doc[ID_COLUMN]) for doc in results]\<close>.\<close>

definition doc_id_of :: "config \<Rightarrow> json \<Rightarrow> exn + string" where
  "doc_id_of cfg doc =
     (case getitem_str doc (ID_COLUMN cfg) of
        Inl e \<Rightarrow> Inl e
      | Inr v \<Rightarrow> Inr (py_str v))"

definition ids_of :: "config \<Rightarrow> json \<Rightarrow> exn + string list" where
  "ids_of cfg results =
     (case py_iter results of
        Inl e \<Rightarrow> Inl e
      | Inr docs \<Rightarrow> comprehension (doc_id_of cfg) docs)"

text \<open>Lines 57 to 70: the request of a search, or the exception raised while building it.\<close>

definition search_request :: "config \<Rightarrow> string \<Rightarrow> exn + request" where
  "search_request cfg query =
     (case search_params cfg query of
        Inl e \<Rightarrow> Inl e
      | Inr ps \<Rightarrow>
          Inr \<lparr> get_url = base_url cfg @ ''/'' @ SUPABASE_TABLE cfg,
                get_headers = headers cfg,
                get_params = ps,
                get_timeout = REQUEST_TIMEOUT cfg \<rparr>)"

text \<open>The body of the \<^verbatim>\<open>try\<close>, lines 57 to 81: \<open>Inl\<close> is the exception that leaves it.\<close>

definition search_try :: "config \<Rightarrow> backend \<Rightarrow> string \<Rightarrow> exn + string list" where
  "search_try cfg http_get query =
     (case search_request cfg query of
        Inl e \<Rightarrow> Inl e
      | Inr req \<Rightarrow>
          (case http_get req of
             Inl e \<Rightarrow> Inl e
           | Inr r \<Rightarrow>
               (case raise_for_status r of
                  Inl e \<Rightarrow> Inl e
                | Inr _ \<Rightarrow>
                    (case json_result r of
                       Inl e \<Rightarrow> Inl e
                     | Inr results \<Rightarrow> ids_of cfg results))))"

text \<open>
  The two handlers of lines 83 to 88: the first takes a \<^verbatim>\<open>RequestException\<close>, the second
  every other exception; both return the empty list.
\<close>

definition search_documents :: "config \<Rightarrow> backend \<Rightarrow> string \<Rightarrow> string list" where
  "search_documents cfg http_get query =
     (case search_try cfg http_get query of
        Inr ids \<Rightarrow> ids
      | Inl e \<Rightarrow> (if is_RequestException e then [] else []))"

subsection \<open>fetch_document\<close>

text \<open>
  A result dict of \<^verbatim>\<open>fetch_document\<close>: its items in insertion order. The values are Python
  values, since \<^verbatim>\<open>doc.get\<close> hands on whatever the row holds.
\<close>

type_synonym result = "(string \<times> json) list"

definition fetch_params :: "config \<Rightarrow> string \<Rightarrow> (string \<times> string) list" where
  "fetch_params cfg doc_id =
     dict_set (dict_set []
       ''select'' (ID_COLUMN cfg @ '','' @ TITLE_COLUMN cfg @ '','' @ CONTENT_COLUMN cfg))
       (ID_COLUMN cfg) (''eq.'' @ doc_id)"

definition error_result :: "string \<Rightarrow> string \<Rightarrow> result" where
  "error_result doc_id msg =
     dict_set (dict_set (dict_set (dict_set []
       ''id'' (JStr doc_id))
       ''title'' (JStr []))
       ''content'' (JStr []))
       ''error'' (JStr msg)"

text \<open>Lines 119 to 124: the first row, its three entries evaluated from left to right.\<close>

definition row_result :: "config \<Rightarrow> json \<Rightarrow> exn + result" where
  "row_result cfg results =
     (case getitem_int results 0 of
        Inl e \<Rightarrow> Inl e
      | Inr doc \<Rightarrow>
          (case getitem_str doc (ID_COLUMN cfg) of
             Inl e \<Rightarrow> Inl e
           | Inr i \<Rightarrow>
               (case dict_get doc (TITLE_COLUMN cfg) (JStr []) of
                  Inl e \<Rightarrow> Inl e
                | Inr t \<Rightarrow>
                    (case dict_get doc (CONTENT_COLUMN cfg) (JStr []) of
                       Inl e \<Rightarrow> Inl e
                     | Inr c \<Rightarrow>
                         Inr (dict_set (dict_set (dict_set []
                           ''id'' (JStr (py_str i)))
                           ''title'' t)
                           ''content'' c)))))"

text \<open>Lines 96 to 100: the request of a fetch.\<close>

definition fetch_request :: "config \<Rightarrow> string \<Rightarrow> request" where
  "fetch_request cfg doc_id =
     \<lparr> get_url = base_url cfg @ ''/'' @ SUPABASE_TABLE cfg,
       get_headers = headers cfg,
       get_params = fetch_params cfg doc_id,
       get_timeout = REQUEST_TIMEOUT cfg \<rparr>"

text \<open>The body of the \<^verbatim>\<open>try\<close>, lines 96 to 124.\<close>

definition fetch_try :: "config \<Rightarrow> backend \<Rightarrow> string \<Rightarrow> exn + result" where
  "fetch_try cfg http_get doc_id =
     (case http_get (fetch_request cfg doc_id) of
        Inl e \<Rightarrow> Inl e
      | Inr r \<Rightarrow>
          (case raise_for_status r of
             Inl e \<Rightarrow> Inl e
           | Inr _ \<Rightarrow>
               (case json_result r of
                  Inl e \<Rightarrow> Inl e
                | Inr results \<Rightarrow>
                    (if \<not> truthy results then Inr (error_result doc_id ''Document not found'')
                     else row_result cfg results))))"

text \<open>The two handlers of lines 126 to 141.\<close>

definition fetch_document :: "config \<Rightarrow> backend \<Rightarrow> string \<Rightarrow> result" where
  "fetch_document cfg http_get doc_id =
     (case fetch_try cfg http_get doc_id of
        Inr d \<Rightarrow> d
      | Inl e \<Rightarrow>
          (if is_RequestException e then error_result doc_id (''Request failed: '' @ str_exn e)
           else error_result doc_id (''Fetch error: '' @ str_exn e)))"

section \<open>The two tools\<close>

definition search :: "config \<Rightarrow> backend \<Rightarrow> string \<Rightarrow> (string \<times> string list) list" where
  "search cfg http_get query = dict_set [] ''ids'' (search_documents cfg http_get query)"

definition fetch :: "config \<Rightarrow> backend \<Rightarrow> string \<Rightarrow> result" where
  "fetch cfg http_get ident = fetch_document cfg http_get ident"

section \<open>Vocabulary of the properties\<close>

text \<open>
  The settings the module ends up with when the environment holds the two required
  variables and nothing else: every optional setting at its default.
\<close>

definition default_config :: "string \<Rightarrow> string \<Rightarrow> config" where
  "default_config url anon_key =
     \<lparr> SUPABASE_URL = url,
       SUPABASE_ANON_KEY = anon_key,
       SUPABASE_TABLE = ''documents'',
       SEARCH_COLUMNS = [''title'', ''content''],
       ID_COLUMN = ''id'',
       TITLE_COLUMN = ''title'',
       CONTENT_COLUMN = ''content'',
       USE_LOCALTUNNEL = False,
       LOCALTUNNEL_SUBDOMAIN = None,
       REQUEST_TIMEOUT = 30 \<rparr>"

text \<open>A backing API that does the same with every request.\<close>

definition answering :: "exn + response \<Rightarrow> backend" where
  "answering outcome = (\<lambda>req. outcome)"

text \<open>A row that holds a column: a JSON object with that key.\<close>

fun has_column :: "string \<Rightarrow> json \<Rightarrow> bool" where
  "has_column k (JObj kvs) = (map_of kvs k \<noteq> None)"
| "has_column k v = False"

text \<open>A well-formed search body: a JSON array of rows that all hold the id column.\<close>

fun id_rows :: "config \<Rightarrow> json \<Rightarrow> bool" where
  "id_rows cfg (JArr rows) = list_all (has_column (ID_COLUMN cfg)) rows"
| "id_rows cfg v = False"

text \<open>The statuses \<^verbatim>\<open>raise_for_status\<close> turns into an \<^verbatim>\<open>HTTPError\<close>, and the 2xx ones.\<close>

definition error_status :: "nat \<Rightarrow> bool" where
  "error_status s = (400 \<le> s \<and> s < 600)"

definition success_status :: "nat \<Rightarrow> bool" where
  "success_status s = (200 \<le> s \<and> s < 300)"

text \<open>
  The two classes of failure of a fetch, read off what the backing API does with the
  request, in the order the code meets them. A request-level failure is one that reaches
  the first handler: \<^verbatim>\<open>requests.get\<close> raises a \<^verbatim>\<open>RequestException\<close> (network, timeout), or
  the status is one \<^verbatim>\<open>raise_for_status\<close> rejects, or the status passes and
  \<^verbatim>\<open>response.json()\<close> raises a \<^verbatim>\<open>RequestException\<close> (the decoding error of the releases of
  \<^verbatim>\<open>requests\<close> that derive it from that class). An unexpected failure is one that reaches
  the second handler: any other exception of \<^verbatim>\<open>requests.get\<close> or of \<^verbatim>\<open>response.json()\<close>, or
  a body that is not empty and whose first row does not hold the id column.
\<close>

definition request_level :: "exn + response \<Rightarrow> bool" where
  "request_level outcome =
     (case outcome of
        Inl e \<Rightarrow> is_RequestException e
      | Inr r \<Rightarrow>
          error_status (status_code r) \<or>
          (case json_result r of
             Inl e \<Rightarrow> is_RequestException e
           | Inr results \<Rightarrow> False))"

fun first_row_has_id :: "config \<Rightarrow> json \<Rightarrow> bool" where
  "first_row_has_id cfg (JArr (row # rows)) = has_column (ID_COLUMN cfg) row"
| "first_row_has_id cfg v = False"

definition unexpected :: "config \<Rightarrow> exn + response \<Rightarrow> bool" where
  "unexpected cfg outcome =
     (case outcome of
        Inl e \<Rightarrow> \<not> is_RequestException e
      | Inr r \<Rightarrow>
          \<not> error_status (status_code r) \<and>
          (case json_result r of
             Inl e \<Rightarrow> \<not> is_RequestException e
           | Inr results \<Rightarrow> truthy results \<and> \<not> first_row_has_id cfg results))"

section \<open>Facts about the built-ins\<close>

lemma split_on_not_Nil: "split_on c s \<noteq> []"
  by (induction s) (auto split: list.splits)

lemma or_conditions_map:
  "or_conditions cfg query = map (\<lambda>column. column @ ''.ilike.%'' @ query @ ''%'') (SEARCH_COLUMNS cfg)"
proof -
  have "foldl (\<lambda>acc column. acc @ [f column]) acc cols = acc @ map f cols"
    for f :: "string \<Rightarrow> string" and acc cols
    by (induction cols arbitrary: acc) auto
  from this [of _ "[]"] show ?thesis
    by (simp add: or_conditions_def)
qed

lemma filter_param_pieces:
  "split_on CHR ''='' (filter_param cfg query) =
     ''or'' # split_on CHR ''='' (CHR ''('' # str_join '','' (or_conditions cfg query) @ '')'')"
  by (simp add: filter_param_def)

lemma search_params_value:
  "search_params cfg query =
     Inr (dict_set [(''select'', ID_COLUMN cfg)] ''or''
            (hd (split_on CHR ''='' (CHR ''('' # str_join '','' (or_conditions cfg query) @ '')''))))"
proof -
  let ?rest = "split_on CHR ''='' (CHR ''('' # str_join '','' (or_conditions cfg query) @ '')'')"
  obtain v vs where rest: "?rest = v # vs"
    using split_on_not_Nil [of "CHR ''=''" "CHR ''('' # str_join '','' (or_conditions cfg query) @ '')''"]
    by (cases ?rest) (auto simp del: split_on.simps)
  show ?thesis
    unfolding search_params_def filter_param_pieces rest
    by (simp add: piece_def)
qed

lemma search_request_total: "\<exists>req. search_request cfg query = Inr req"
  by (simp add: search_request_def search_params_value)

lemma success_not_error: "success_status s \<Longrightarrow> \<not> error_status s"
  by (simp add: success_status_def error_status_def)

lemma raise_for_status_ok: "\<not> error_status (status_code r) \<Longrightarrow> raise_for_status r = Inr ()"
  by (auto simp: raise_for_status_def error_status_def)

lemma raise_for_status_error:
  "error_status (status_code r) \<Longrightarrow> \<exists>m. raise_for_status r = Inl (RequestException m)"
  by (auto simp: raise_for_status_def error_status_def)

lemma error_result_items:
  "error_result doc_id msg =
     [(''id'', JStr doc_id), (''title'', JStr []), (''content'', JStr []), (''error'', JStr msg)]"
  by (simp add: error_result_def)

section \<open>The comprehension of search_documents\<close>

lemma doc_id_of_has_column:
  assumes "has_column (ID_COLUMN cfg) row"
  shows "\<exists>kvs v. row = JObj kvs \<and> map_of kvs (ID_COLUMN cfg) = Some v \<and> doc_id_of cfg row = Inr (py_str v)"
  using assms by (cases row) (auto simp: doc_id_of_def)

lemma doc_id_of_lacks_column:
  assumes "\<not> has_column (ID_COLUMN cfg) row"
  shows "\<exists>e. doc_id_of cfg row = Inl e"
  using assms by (cases row) (auto simp: doc_id_of_def split: option.splits)

lemma comprehension_raises:
  assumes "x \<in> set xs" and "f x = Inl e"
  shows "\<exists>e'. comprehension f xs = Inl e'"
  using assms by (induction xs) (auto split: sum.splits)

lemma comprehension_returns:
  assumes "\<forall>x \<in> set xs. \<exists>y. f x = Inr y"
  shows "\<exists>ys. comprehension f xs = Inr ys \<and> length ys = length xs \<and>
              (\<forall>n < length xs. f (xs ! n) = Inr (ys ! n))"
  using assms
proof (induction xs)
  case Nil
  then show ?case by simp
next
  case (Cons x xs)
  then obtain y where y: "f x = Inr y" by auto
  from Cons obtain ys where ys: "comprehension f xs = Inr ys" "length ys = length xs"
    "\<forall>n < length xs. f (xs ! n) = Inr (ys ! n)" by auto
  have "\<forall>n < length (x # xs). f ((x # xs) ! n) = Inr ((y # ys) ! n)"
    using y ys(3) by (auto simp: nth_Cons split: nat.splits)
  then show ?case using y ys by simp
qed

lemma ids_of_malformed:
  assumes "\<not> id_rows cfg results"
  shows "(\<exists>e. ids_of cfg results = Inl e) \<or> ids_of cfg results = Inr []"
proof (cases results)
  case (JArr rows)
  with assms obtain row where row: "row \<in> set rows" "\<not> has_column (ID_COLUMN cfg) row"
    by (auto simp: list_all_iff)
  from doc_id_of_lacks_column [OF row(2)] obtain e where "doc_id_of cfg row = Inl e" ..
  from comprehension_raises [of row rows "doc_id_of cfg" e, OF row(1) this] show ?thesis
    by (simp add: ids_of_def JArr)
next
  case (JObj kvs)
  show ?thesis
  proof (cases kvs)
    case Nil
    then show ?thesis by (simp add: ids_of_def JObj)
  next
    case (Cons kv kvs')
    then show ?thesis by (simp add: ids_of_def JObj doc_id_of_def)
  qed
next
  case (JStr s)
  show ?thesis
  proof (cases s)
    case Nil
    then show ?thesis by (simp add: ids_of_def JStr)
  next
    case (Cons c s')
    then show ?thesis by (simp add: ids_of_def JStr doc_id_of_def)
  qed
qed (simp_all add: ids_of_def)

section \<open>Properties of search_documents and search\<close>

lemma search_try_returns:
  assumes "search_request cfg query = Inr req" and "http_get req = Inr r"
    and "\<not> error_status (status_code r)" and "json_result r = Inr results"
  shows "search_try cfg http_get query = ids_of cfg results"
  using assms by (simp add: search_try_def raise_for_status_ok)

lemma search_documents_cases:
  "search_documents cfg http_get query =
     (case search_try cfg http_get query of Inl e \<Rightarrow> [] | Inr ids \<Rightarrow> ids)"
  by (simp add: search_documents_def split: sum.splits)

lemma search_ids: "search cfg http_get query = [(''ids'', search_documents cfg http_get query)]"
  by (simp add: search_def)

text \<open>
  Claim C1 (the query is escaped when the per-column \<^verbatim>\<open>ilike\<close> predicates are built, so
  that \<^verbatim>\<open>search("a,b")\<close> sends a well-formed filter matching the literal text). The code
  at that query: the text is put into every predicate as it is. The filter sent holds the
  comma of the query bare, so the list the code joined from two predicates reads as four
  items at its own separator.
\<close>

theorem search_params_raw_comma:
  "search_params (default_config url anon_key) ''a,b'' =
     Inr [(''select'', ''id''), (''or'', ''(title.ilike.%a,b%,content.ilike.%a,b%)'')]
   \<and> length (or_conditions (default_config url anon_key) ''a,b'') = 2
   \<and> length (split_on CHR '','' (str_join '','' (or_conditions (default_config url anon_key) ''a,b''))) = 4"
  by (simp add: search_params_def filter_param_def or_conditions_def default_config_def piece_def)

text \<open>
  Claim C2, amended: whenever \<^verbatim>\<open>requests.get\<close> raises, or the status is one that
  \<^verbatim>\<open>raise_for_status\<close> rejects (400 to 599), or \<^verbatim>\<open>response.json()\<close> raises, or the body is
  not a JSON array of rows that all hold the id column, \<open>search_documents\<close> returns the
  empty list and \<open>search\<close> returns \<^verbatim>\<open>{"ids": []}\<close>. Both are total functions into plain
  results: no exception leaves them.
\<close>

theorem search_documents_fail_soft:
  assumes "search_request cfg query = Inr req"
    and "(\<exists>e. http_get req = Inl e) \<or>
         (\<exists>r. http_get req = Inr r \<and>
              (error_status (status_code r) \<or>
               (\<exists>e. json_result r = Inl e) \<or>
               (\<exists>j. json_result r = Inr j \<and> \<not> id_rows cfg j)))"
  shows "search_documents cfg http_get query = [] \<and> search cfg http_get query = [(''ids'', [])]"
proof -
  have "search_documents cfg http_get query = []"
    using assms(2)
  proof (elim disjE exE conjE)
    fix e assume "http_get req = Inl e"
    then show ?thesis
      by (simp add: search_documents_cases search_try_def assms(1))
  next
    fix r assume "http_get req = Inr r" "error_status (status_code r)"
    then show ?thesis
      using raise_for_status_error [of r]
      by (auto simp: search_documents_cases search_try_def assms(1))
  next
    fix r e assume "http_get req = Inr r" "json_result r = Inl e"
    then show ?thesis
      by (simp add: search_documents_cases search_try_def assms(1) split: sum.splits)
  next
    fix r j assume r: "http_get req = Inr r" "json_result r = Inr j" "\<not> id_rows cfg j"
    from ids_of_malformed [OF r(3)] show ?thesis
      using r(1,2) by (auto simp: search_documents_cases search_try_def assms(1) split: sum.splits)
  qed
  then show ?thesis by (simp add: search_ids)
qed

text \<open>The unreachable backing API: every request ends in a connection error.\<close>

theorem search_documents_fail_soft_witness:
  "search_documents (default_config ''https://kb.example'' ''key'')
     (answering (Inl (RequestException ''Connection refused''))) ''cats'' = []
   \<and> search (default_config ''https://kb.example'' ''key'')
     (answering (Inl (RequestException ''Connection refused''))) ''cats'' = [(''ids'', [])]"
proof -
  obtain req where req: "search_request (default_config ''https://kb.example'' ''key'') ''cats'' = Inr req"
    using search_request_total by blast
  have "\<exists>e. answering (Inl (RequestException ''Connection refused'')) req = Inl e"
    by (simp add: answering_def)
  then show ?thesis
    using search_documents_fail_soft [where http_get = "answering (Inl (RequestException ''Connection refused''))", OF req]
    by blast
qed

text \<open>
  As first stated, with every status outside 200 to 299 counted as a failure, the
  property does not hold: status 300 is outside that range, \<^verbatim>\<open>raise_for_status\<close> lets it
  pass, and the ids of the body are returned.
\<close>

theorem search_documents_redirect_status_counterexample:
  "\<not> success_status 300 \<and>
   search_documents (default_config ''https://kb.example'' ''key'')
     (answering (Inr \<lparr> status_code = 300, reason = ''Multiple Choices'',
                       response_url = ''https://kb.example/rest/v1/documents'',
                       json_result = Inr (JArr [JObj [(''id'', JStr ''doc-1'')]]) \<rparr>))
     ''cats'' = [''doc-1'']"
  by (simp add: success_status_def search_documents_def search_try_def search_request_def
      search_params_value answering_def raise_for_status_def ids_of_def doc_id_of_def
      default_config_def)

text \<open>
  Claim C7: on a 2xx response whose body is a JSON array of rows holding the id column,
  \<open>search_documents\<close> returns one string per row, in the order of the rows, each the
  \<^verbatim>\<open>str()\<close> of that row's id value; and \<open>search\<close> returns exactly this list under the one
  key \<^verbatim>\<open>ids\<close>.
\<close>

theorem search_documents_success:
  assumes "search_request cfg query = Inr req" and "http_get req = Inr r"
    and "success_status (status_code r)" and "json_result r = Inr (JArr rows)"
    and "\<forall>row \<in> set rows. has_column (ID_COLUMN cfg) row"
  shows "length (search_documents cfg http_get query) = length rows
       \<and> (\<forall>n < length rows. \<exists>kvs v. rows ! n = JObj kvs \<and> map_of kvs (ID_COLUMN cfg) = Some v
              \<and> search_documents cfg http_get query ! n = py_str v)
       \<and> search cfg http_get query = [(''ids'', search_documents cfg http_get query)]"
proof -
  have "\<forall>row \<in> set rows. \<exists>y. doc_id_of cfg row = Inr y"
    using assms(5) doc_id_of_has_column by blast
  from comprehension_returns [OF this] obtain ids where ids:
    "comprehension (doc_id_of cfg) rows = Inr ids" "length ids = length rows"
    "\<forall>n < length rows. doc_id_of cfg (rows ! n) = Inr (ids ! n)" by blast
  have "search_try cfg http_get query = Inr ids"
    using search_try_returns [where http_get = http_get, OF assms(1,2) success_not_error [OF assms(3)] assms(4)] ids(1)
    by (simp add: ids_of_def)
  then have result: "search_documents cfg http_get query = ids"
    by (simp add: search_documents_cases)
  have "\<exists>kvs v. rows ! n = JObj kvs \<and> map_of kvs (ID_COLUMN cfg) = Some v \<and> ids ! n = py_str v"
    if "n < length rows" for n
  proof -
    from that have "has_column (ID_COLUMN cfg) (rows ! n)"
      using assms(5) by simp
    from doc_id_of_has_column [OF this] ids(3) that show ?thesis
      by auto
  qed
  then show ?thesis
    using result ids(2) by (simp add: search_ids)
qed

text \<open>Two rows, an integer id and a string id: the ids come back as text, in order.\<close>

theorem search_documents_success_witness:
  "search_documents (default_config ''https://kb.example'' ''key'')
     (answering (Inr \<lparr> status_code = 200, reason = ''OK'',
                       response_url = ''https://kb.example/rest/v1/documents'',
                       json_result = Inr (JArr [JObj [(''id'', JInt 42)], JObj [(''id'', JStr ''b'')]]) \<rparr>))
     ''cats'' = [''42'', ''b'']"
proof -
  let ?cfg = "default_config ''https://kb.example'' ''key''"
  let ?rows = "[JObj [(''id'', JInt 42)], JObj [(''id'', JStr ''b'')]]"
  let ?r = "\<lparr> status_code = 200, reason = ''OK'',
               response_url = ''https://kb.example/rest/v1/documents'',
               json_result = Inr (JArr ?rows) \<rparr>"
  obtain req where req: "search_request ?cfg ''cats'' = Inr req"
    using search_request_total by blast
  have a: "answering (Inr ?r) req = Inr ?r" by (simp add: answering_def)
  have b: "success_status (status_code ?r)" by (simp add: success_status_def)
  have c: "json_result ?r = Inr (JArr ?rows)" by simp
  have d: "\<forall>row \<in> set ?rows. has_column (ID_COLUMN ?cfg) row"
    by (simp add: default_config_def)
  have show42: "show_int 42 = ''42''"
    by (simp add: show_int_def show_nat.simps digit_char_def)
  from search_documents_success [where http_get = "answering (Inr ?r)", OF req a b c d]
  have len: "length (search_documents ?cfg (answering (Inr ?r)) ''cats'') = 2"
    and nth: "\<forall>n < 2. \<exists>kvs v. ?rows ! n = JObj kvs \<and> map_of kvs (ID_COLUMN ?cfg) = Some v
              \<and> search_documents ?cfg (answering (Inr ?r)) ''cats'' ! n = py_str v"
    by simp_all
  from nth [rule_format, of 0] have n0: "search_documents ?cfg (answering (Inr ?r)) ''cats'' ! 0 = ''42''"
    by (auto simp: default_config_def show42)
  from nth [rule_format, of 1] have n1: "search_documents ?cfg (answering (Inr ?r)) ''cats'' ! 1 = ''b''"
    by (auto simp: default_config_def)
  show ?thesis
    using len n0 n1 by (auto simp: list_eq_iff_nth_eq less_2_cases_iff)
qed

text \<open>
  Claim C9: on a 2xx response whose body is a JSON array, one row without the id column
  is enough for \<open>search_documents\<close> to return the empty list: no id of the other rows is
  returned.
\<close>

theorem search_documents_row_without_id:
  assumes "search_request cfg query = Inr req" and "http_get req = Inr r"
    and "success_status (status_code r)" and "json_result r = Inr (JArr rows)"
    and "\<exists>row \<in> set rows. \<not> has_column (ID_COLUMN cfg) row"
  shows "search_documents cfg http_get query = []"
proof -
  from assms(5) obtain row where row: "row \<in> set rows" "\<not> has_column (ID_COLUMN cfg) row"
    by blast
  from doc_id_of_lacks_column [OF row(2)] obtain e where "doc_id_of cfg row = Inl e" ..
  from comprehension_raises [of row rows "doc_id_of cfg" e, OF row(1) this]
  obtain e' where "ids_of cfg (JArr rows) = Inl e'"
    by (auto simp: ids_of_def)
  then have "search_try cfg http_get query = Inl e'"
    using search_try_returns [where http_get = http_get, OF assms(1,2) success_not_error [OF assms(3)] assms(4)] by simp
  then show ?thesis
    by (simp add: search_documents_cases)
qed

text \<open>A well-formed row followed by one without the id column: nothing is returned.\<close>

theorem search_documents_row_without_id_witness:
  "search_documents (default_config ''https://kb.example'' ''key'')
     (answering (Inr \<lparr> status_code = 200, reason = ''OK'',
                       response_url = ''https://kb.example/rest/v1/documents'',
                       json_result = Inr (JArr [JObj [(''id'', JInt 42)], JObj [(''name'', JStr ''b'')]]) \<rparr>))
     ''cats'' = []"
proof -
  let ?cfg = "default_config ''https://kb.example'' ''key''"
  let ?rows = "[JObj [(''id'', JInt 42)], JObj [(''name'', JStr ''b'')]]"
  let ?r = "\<lparr> status_code = 200, reason = ''OK'',
               response_url = ''https://kb.example/rest/v1/documents'',
               json_result = Inr (JArr ?rows) \<rparr>"
  obtain req where req: "search_request ?cfg ''cats'' = Inr req"
    using search_request_total by blast
  have a: "answering (Inr ?r) req = Inr ?r" by (simp add: answering_def)
  have b: "success_status (status_code ?r)" by (simp add: success_status_def)
  have c: "json_result ?r = Inr (JArr ?rows)" by simp
  have d: "\<exists>row \<in> set ?rows. \<not> has_column (ID_COLUMN ?cfg) row"
    by (simp add: default_config_def)
  from search_documents_row_without_id [where http_get = "answering (Inr ?r)", OF req a b c d] show ?thesis .
qed

section \<open>Properties of fetch_document and fetch\<close>

lemma fetch_try_body:
  assumes "http_get (fetch_request cfg doc_id) = Inr r" and "\<not> error_status (status_code r)"
    and "json_result r = Inr results"
  shows "fetch_try cfg http_get doc_id =
           (if \<not> truthy results then Inr (error_result doc_id ''Document not found'')
            else row_result cfg results)"
  using assms by (simp add: fetch_try_def raise_for_status_ok)

lemma fetch_document_raised:
  assumes "fetch_try cfg http_get doc_id = Inl e"
  shows "fetch_document cfg http_get doc_id =
           [(''id'', JStr doc_id), (''title'', JStr []), (''content'', JStr []),
            (''error'', JStr ((if is_RequestException e then ''Request failed: '' else ''Fetch error: '')
                              @ str_exn e))]"
  using assms by (simp add: fetch_document_def error_result_items)

lemma fetch_try_request_level:
  assumes "request_level (http_get (fetch_request cfg doc_id))"
  shows "\<exists>m. fetch_try cfg http_get doc_id = Inl (RequestException m)"
proof (cases "http_get (fetch_request cfg doc_id)")
  case (Inl e)
  with assms obtain m where "e = RequestException m"
    by (cases e) (auto simp: request_level_def)
  with Inl show ?thesis by (simp add: fetch_try_def)
next
  case (Inr r)
  show ?thesis
  proof (cases "error_status (status_code r)")
    case True
    from raise_for_status_error [OF this] Inr show ?thesis
      by (auto simp: fetch_try_def)
  next
    case False
    with assms Inr obtain e where e: "json_result r = Inl e" "is_RequestException e"
      by (auto simp: request_level_def split: sum.splits)
    then obtain m where "e = RequestException m"
      by (cases e) auto
    with e Inr False show ?thesis
      by (simp add: fetch_try_def raise_for_status_ok)
  qed
qed


lemma getitem_str_lacks_column:
  assumes "\<not> has_column k row"
  shows "\<exists>e. getitem_str row k = Inl e \<and> \<not> is_RequestException e"
  using assms by (cases row) (auto split: option.splits)

lemma row_result_unexpected:
  assumes "truthy results" and "\<not> first_row_has_id cfg results"
  shows "\<exists>e. row_result cfg results = Inl e \<and> \<not> is_RequestException e"
proof (cases results)
  case (JArr rows)
  with assms(1) obtain row rest where rows: "rows = row # rest"
    by (cases rows) auto
  with assms(2) JArr have "\<not> has_column (ID_COLUMN cfg) row" by simp
  from getitem_str_lacks_column [OF this] show ?thesis
    by (auto simp: row_result_def JArr rows index_of_def)
next
  case (JStr s)
  with assms(1) obtain c rest where s: "s = c # rest"
    by (cases s) auto
  show ?thesis
    by (simp add: row_result_def JStr s index_of_def)
qed (use assms(1) in \<open>simp_all add: row_result_def\<close>)

lemma fetch_try_unexpected:
  assumes "unexpected cfg (http_get (fetch_request cfg doc_id))"
  shows "\<exists>e. fetch_try cfg http_get doc_id = Inl e \<and> \<not> is_RequestException e"
proof (cases "http_get (fetch_request cfg doc_id)")
  case (Inl e)
  with assms show ?thesis by (simp add: fetch_try_def unexpected_def)
next
  case (Inr r)
  with assms have ok: "\<not> error_status (status_code r)"
    by (simp add: unexpected_def)
  show ?thesis
  proof (cases "json_result r")
    case (Inl e)
    with assms Inr ok show ?thesis
      by (simp add: fetch_try_def unexpected_def raise_for_status_ok)
  next
    case body: (Inr results)
    with assms Inr have "truthy results" "\<not> first_row_has_id cfg results"
      by (simp_all add: unexpected_def)
    from row_result_unexpected [OF this] this(1) show ?thesis
      using fetch_try_body [where http_get = http_get, OF Inr ok body] by simp
  qed
qed

lemma row_result_first_row:
  assumes "map_of kvs (ID_COLUMN cfg) = Some v"
  shows "row_result cfg (JArr (JObj kvs # rows)) =
           Inr [(''id'', JStr (py_str v)),
                (''title'', case map_of kvs (TITLE_COLUMN cfg) of None \<Rightarrow> JStr [] | Some t \<Rightarrow> t),
                (''content'', case map_of kvs (CONTENT_COLUMN cfg) of None \<Rightarrow> JStr [] | Some c \<Rightarrow> c)]"
  using assms by (simp add: row_result_def index_of_def split: option.splits)

lemma fetch_document_first_row:
  assumes "http_get (fetch_request cfg doc_id) = Inr r" and "\<not> error_status (status_code r)"
    and "json_result r = Inr (JArr (JObj kvs # rows))"
    and "map_of kvs (ID_COLUMN cfg) = Some v"
  shows "fetch_document cfg http_get doc_id =
           [(''id'', JStr (py_str v)),
            (''title'', case map_of kvs (TITLE_COLUMN cfg) of None \<Rightarrow> JStr [] | Some t \<Rightarrow> t),
            (''content'', case map_of kvs (CONTENT_COLUMN cfg) of None \<Rightarrow> JStr [] | Some c \<Rightarrow> c)]"
  using fetch_try_body [where http_get = http_get, OF assms(1,2,3)] row_result_first_row [OF assms(4)]
  by (simp add: fetch_document_def)

text \<open>
  Claim C3, amended: whenever \<^verbatim>\<open>requests.get\<close> raises a \<^verbatim>\<open>RequestException\<close>, or the
  status is one that \<^verbatim>\<open>raise_for_status\<close> rejects (400 to 599), \<open>fetch_document\<close> returns
  the id the caller gave, an empty title, an empty content and an error text that begins
  \<^verbatim>\<open>Request failed:\<close>, hence is not empty. The id is the caller's, whatever the body
  holds; the function is total, so no exception leaves it.
\<close>

theorem fetch_document_request_failure:
  assumes "(\<exists>e. http_get (fetch_request cfg doc_id) = Inl e \<and> is_RequestException e) \<or>
           (\<exists>r. http_get (fetch_request cfg doc_id) = Inr r \<and> error_status (status_code r))"
  shows "\<exists>m. fetch_document cfg http_get doc_id =
                [(''id'', JStr doc_id), (''title'', JStr []), (''content'', JStr []),
                 (''error'', JStr (''Request failed: '' @ m))]
              \<and> ''Request failed: '' @ m \<noteq> []"
proof -
  from assms have "request_level (http_get (fetch_request cfg doc_id))"
    by (auto simp: request_level_def)
  from fetch_try_request_level [where http_get = http_get, OF this] obtain m where
    "fetch_try cfg http_get doc_id = Inl (RequestException m)" ..
  from fetch_document_raised [OF this] show ?thesis by simp
qed

text \<open>
  A 503 answer whose body names another id: the caller's id comes back with the error.
\<close>

theorem fetch_document_request_failure_witness:
  "\<exists>m. fetch_document (default_config ''https://kb.example'' ''key'')
          (answering (Inr \<lparr> status_code = 503, reason = ''Service Unavailable'',
                            response_url = ''https://kb.example/rest/v1/documents'',
                            json_result = Inr (JArr [JObj [(''id'', JInt 9)]]) \<rparr>)) ''42'' =
          [(''id'', JStr ''42''), (''title'', JStr []), (''content'', JStr []),
           (''error'', JStr (''Request failed: '' @ m))]
        \<and> ''Request failed: '' @ m \<noteq> []"
  using fetch_document_request_failure
    [of "answering (Inr \<lparr> status_code = 503, reason = ''Service Unavailable'',
                            response_url = ''https://kb.example/rest/v1/documents'',
                            json_result = Inr (JArr [JObj [(''id'', JInt 9)]]) \<rparr>)"
        "default_config ''https://kb.example'' ''key''" "''42''"]
  by (simp add: answering_def error_status_def)

text \<open>
  As first stated, with every status outside 200 to 299 counted as a failure, the
  property does not hold: status 300 is outside that range, \<^verbatim>\<open>raise_for_status\<close> lets it
  pass, and the first row is returned without an error entry.
\<close>

theorem fetch_document_redirect_status_counterexample:
  "\<not> success_status 300 \<and>
   fetch_document (default_config ''https://kb.example'' ''key'')
     (answering (Inr \<lparr> status_code = 300, reason = ''Multiple Choices'',
                       response_url = ''https://kb.example/rest/v1/documents'',
                       json_result = Inr (JArr [JObj [(''id'', JStr ''42''), (''title'', JStr ''Cats''),
                                                      (''content'', JStr ''Cats are great'')]]) \<rparr>))
     ''42'' = [(''id'', JStr ''42''), (''title'', JStr ''Cats''), (''content'', JStr ''Cats are great'')]"
  by (simp add: success_status_def fetch_document_def fetch_try_def answering_def
      raise_for_status_def row_result_def index_of_def default_config_def)



text \<open>
  Claim C5 (the first row is mapped with a null or missing title and content turned into
  the empty string). The code at a row whose title is null: \<^verbatim>\<open>doc.get(TITLE_COLUMN, "")\<close>
  finds the key and hands on its value, so the title of the result is \<^verbatim>\<open>None\<close> and not the
  empty string.
\<close>

theorem fetch_document_null_title:
  "fetch_document (default_config url anon_key)
     (answering (Inr \<lparr> status_code = 200, reason = ''OK'', response_url = u,
                       json_result = Inr (JArr [JObj [(''id'', JStr ''42''), (''title'', JNull),
                                                      (''content'', JStr ''Cats are great'')]]) \<rparr>))
     ''42'' = [(''id'', JStr ''42''), (''title'', JNull), (''content'', JStr ''Cats are great'')]"
  by (simp add: fetch_document_def fetch_try_def answering_def
      raise_for_status_def row_result_def index_of_def default_config_def)

text \<open>
  Claim C6, amended: the error text tells the failures that reach the first handler from
  those that reach the second. A request-level failure (\<^verbatim>\<open>requests.get\<close> raises a
  \<^verbatim>\<open>RequestException\<close>, the status is from 400 to 599, or \<^verbatim>\<open>response.json()\<close> raises a
  \<^verbatim>\<open>RequestException\<close>) and an unexpected failure (any other exception of \<^verbatim>\<open>requests.get\<close> or
  \<^verbatim>\<open>response.json()\<close>, or a body that is not empty whose first row lacks the id column)
  both give the caller's id, an empty title, an empty content and an error text that is
  not empty; the first text begins \<^verbatim>\<open>Request failed:\<close>, the second \<^verbatim>\<open>Fetch error:\<close>, so the
  two are never the same text.
\<close>

theorem fetch_document_failure_classes:
  assumes "request_level (g1 (fetch_request cfg i1))"
    and "unexpected cfg (g2 (fetch_request cfg i2))"
  shows "\<exists>m1 m2.
           fetch_document cfg g1 i1 =
             [(''id'', JStr i1), (''title'', JStr []), (''content'', JStr []),
              (''error'', JStr (''Request failed: '' @ m1))]
         \<and> fetch_document cfg g2 i2 =
             [(''id'', JStr i2), (''title'', JStr []), (''content'', JStr []),
              (''error'', JStr (''Fetch error: '' @ m2))]
         \<and> ''Request failed: '' @ m1 \<noteq> ''Fetch error: '' @ m2
         \<and> ''Request failed: '' @ m1 \<noteq> [] \<and> ''Fetch error: '' @ m2 \<noteq> []"
proof -
  from fetch_try_request_level [where http_get = g1, OF assms(1)] obtain m1 where
    "fetch_try cfg g1 i1 = Inl (RequestException m1)" ..
  from fetch_document_raised [OF this]
  have first: "fetch_document cfg g1 i1 =
      [(''id'', JStr i1), (''title'', JStr []), (''content'', JStr []),
       (''error'', JStr (''Request failed: '' @ m1))]" by simp
  from fetch_try_unexpected [where http_get = g2, OF assms(2)] obtain e where
    e: "fetch_try cfg g2 i2 = Inl e" "\<not> is_RequestException e" by blast
  from fetch_document_raised [OF e(1)] e(2)
  have second: "fetch_document cfg g2 i2 =
      [(''id'', JStr i2), (''title'', JStr []), (''content'', JStr []),
       (''error'', JStr (''Fetch error: '' @ str_exn e))]" by simp
  from first second show ?thesis by auto
qed

text \<open>
  A read timeout against a 200 answer whose body is the number 7: the body is not empty
  and has no first row, \<^verbatim>\<open>results[0]\<close> raises a \<^verbatim>\<open>TypeError\<close>.
\<close>

theorem fetch_document_failure_classes_witness:
  "\<exists>m1 m2.
     fetch_document (default_config ''https://kb.example'' ''key'')
       (answering (Inl (RequestException ''Read timed out''))) ''42'' =
       [(''id'', JStr ''42''), (''title'', JStr []), (''content'', JStr []),
        (''error'', JStr (''Request failed: '' @ m1))]
   \<and> fetch_document (default_config ''https://kb.example'' ''key'')
       (answering (Inr \<lparr> status_code = 200, reason = ''OK'',
                         response_url = ''https://kb.example/rest/v1/documents'',
                         json_result = Inr (JInt 7) \<rparr>))
       ''43'' =
       [(''id'', JStr ''43''), (''title'', JStr []), (''content'', JStr []),
        (''error'', JStr (''Fetch error: '' @ m2))]
   \<and> ''Request failed: '' @ m1 \<noteq> ''Fetch error: '' @ m2
   \<and> ''Request failed: '' @ m1 \<noteq> [] \<and> ''Fetch error: '' @ m2 \<noteq> []"
  using fetch_document_failure_classes
    [of "answering (Inl (RequestException ''Read timed out''))"
        "default_config ''https://kb.example'' ''key''" "''42''"
        "answering (Inr \<lparr> status_code = 200, reason = ''OK'',
                         response_url = ''https://kb.example/rest/v1/documents'',
                         json_result = Inr (JInt 7) \<rparr>)"
        "''43''"]
  by (simp add: answering_def request_level_def unexpected_def error_status_def)

text \<open>
  As first stated, with every status outside 200 to 299 a request-level failure and
  every parse failure an unexpected one, the property does not hold. A body that
  \<^verbatim>\<open>response.json()\<close> rejects with a \<^verbatim>\<open>RequestException\<close> is reported as
  \<^verbatim>\<open>Request failed:\<close>, with the very result a failed connection of the same text gives; and
  a 302 answer, outside 200 to 299, that carries a row gives a result with no error at
  all.
\<close>

theorem fetch_document_failure_classes_counterexample:
  "fetch_document (default_config ''https://kb.example'' ''key'')
     (answering (Inr \<lparr> status_code = 200, reason = ''OK'',
                       response_url = ''https://kb.example/rest/v1/documents'',
                       json_result = Inl (RequestException ''Expecting value: line 1 column 1 (char 0)'') \<rparr>))
     ''42'' =
     [(''id'', JStr ''42''), (''title'', JStr []), (''content'', JStr []),
      (''error'', JStr ''Request failed: Expecting value: line 1 column 1 (char 0)'')]
   \<and> fetch_document (default_config ''https://kb.example'' ''key'')
       (answering (Inl (RequestException ''Expecting value: line 1 column 1 (char 0)''))) ''42'' =
       [(''id'', JStr ''42''), (''title'', JStr []), (''content'', JStr []),
        (''error'', JStr ''Request failed: Expecting value: line 1 column 1 (char 0)'')]
   \<and> \<not> success_status 302
   \<and> map_of (fetch_document (default_config ''https://kb.example'' ''key'')
        (answering (Inr \<lparr> status_code = 302, reason = ''Found'',
                          response_url = ''https://kb.example/rest/v1/documents'',
                          json_result = Inr (JArr [JObj [(''id'', JInt 7), (''title'', JStr ''Dogs''),
                                                         (''content'', JStr ''Dogs bark'')]]) \<rparr>))
        ''7'') ''error'' = None"
  by (simp add: success_status_def fetch_document_def fetch_try_def answering_def
      raise_for_status_def row_result_def index_of_def default_config_def error_result_items)

text \<open>
  Claim C10: on a 2xx response whose body is a JSON array with at least one row, a first
  row without the id column does not make \<open>fetch_document\<close> raise: the result is the
  caller's id, an empty title, an empty content and an error text that begins
  \<^verbatim>\<open>Fetch error:\<close>.
\<close>

theorem fetch_document_first_row_without_id:
  assumes "http_get (fetch_request cfg doc_id) = Inr r" and "success_status (status_code r)"
    and "json_result r = Inr (JArr (row # rows))"
    and "\<not> has_column (ID_COLUMN cfg) row"
  shows "\<exists>m. fetch_document cfg http_get doc_id =
                [(''id'', JStr doc_id), (''title'', JStr []), (''content'', JStr []),
                 (''error'', JStr (''Fetch error: '' @ m))]"
proof -
  have "unexpected cfg (http_get (fetch_request cfg doc_id))"
    using assms success_not_error [OF assms(2)] by (simp add: unexpected_def)
  from fetch_try_unexpected [where http_get = http_get, OF this] obtain e where
    e: "fetch_try cfg http_get doc_id = Inl e" "\<not> is_RequestException e" by blast
  from fetch_document_raised [OF e(1)] e(2) show ?thesis by simp
qed

text \<open>
  A 200 answer whose only row holds a title and no id.
\<close>

theorem fetch_document_first_row_without_id_witness:
  "\<exists>m. fetch_document (default_config ''https://kb.example'' ''key'')
          (answering (Inr \<lparr> status_code = 200, reason = ''OK'',
                            response_url = ''https://kb.example/rest/v1/documents'',
                            json_result = Inr (JArr [JObj [(''title'', JStr ''Cats'')]]) \<rparr>)) ''42'' =
          [(''id'', JStr ''42''), (''title'', JStr []), (''content'', JStr []),
           (''error'', JStr (''Fetch error: '' @ m))]"
  using fetch_document_first_row_without_id
    [of "answering (Inr \<lparr> status_code = 200, reason = ''OK'',
                            response_url = ''https://kb.example/rest/v1/documents'',
                            json_result = Inr (JArr [JObj [(''title'', JStr ''Cats'')]]) \<rparr>)"
        "default_config ''https://kb.example'' ''key''" "''42''"
        "\<lparr> status_code = 200, reason = ''OK'',
           response_url = ''https://kb.example/rest/v1/documents'',
           json_result = Inr (JArr [JObj [(''title'', JStr ''Cats'')]]) \<rparr>"
        "JObj [(''title'', JStr ''Cats'')]" "[]"]
  by (simp add: answering_def success_status_def default_config_def)

section \<open>Properties of the configuration\<close>

lemma py_int_30: "py_int ''30'' = Some 30"
  by (simp add: py_int_def strip_def is_space_def digits_def digit_val_def)

lemma load_config_missing:
  assumes "not_set (env ''SUPABASE_URL'') \<or> not_set (env ''SUPABASE_ANON_KEY'')"
  shows "\<exists>m. load_config env = Inl (ValueError m)"
  using assms by (auto simp: load_config_def getenv_def Let_def split: option.splits)

lemma load_config_present:
  assumes "env ''SUPABASE_URL'' = Some u" and "u \<noteq> []"
    and "env ''SUPABASE_ANON_KEY'' = Some k" and "k \<noteq> []"
    and "py_int (getenv_default env ''REQUEST_TIMEOUT'' ''30'') = Some t"
  shows "\<exists>cfg. load_config env = Inr cfg \<and> SUPABASE_URL cfg = u \<and> SUPABASE_ANON_KEY cfg = k
               \<and> REQUEST_TIMEOUT cfg = t"
  using assms by (simp add: load_config_def getenv_def Let_def not_set_def)

lemma load_config_defaults:
  assumes "u \<noteq> []" and "k \<noteq> []"
  shows "load_config [''SUPABASE_URL'' \<mapsto> u, ''SUPABASE_ANON_KEY'' \<mapsto> k] = Inr (default_config u k)"
  using assms
  by (simp add: load_config_def getenv_def getenv_default_def Let_def not_set_def py_int_30
      default_config_def lower_def lower_char_def)

text \<open>
  Claim C8, amended: when the base URL or the credential is absent or empty, the import
  ends in a \<^verbatim>\<open>ValueError\<close> and the process does not start; when both are present and not
  empty, and the timeout setting (or its default) is an integer literal, the
  configuration is loaded with these values and startup goes on.
\<close>

theorem load_config_startup:
  "(env ''SUPABASE_URL'' = None \<or> env ''SUPABASE_URL'' = Some [] \<or>
    env ''SUPABASE_ANON_KEY'' = None \<or> env ''SUPABASE_ANON_KEY'' = Some []
      \<longrightarrow> (\<exists>m. load_config env = Inl (ValueError m)))
   \<and> (env ''SUPABASE_URL'' = Some u \<and> u \<noteq> [] \<and> env ''SUPABASE_ANON_KEY'' = Some k \<and> k \<noteq> [] \<and>
      py_int (getenv_default env ''REQUEST_TIMEOUT'' ''30'') = Some t
      \<longrightarrow> (\<exists>cfg. load_config env = Inr cfg \<and> SUPABASE_URL cfg = u \<and> SUPABASE_ANON_KEY cfg = k
                  \<and> REQUEST_TIMEOUT cfg = t))"
proof (intro conjI impI)
  assume "env ''SUPABASE_URL'' = None \<or> env ''SUPABASE_URL'' = Some [] \<or>
    env ''SUPABASE_ANON_KEY'' = None \<or> env ''SUPABASE_ANON_KEY'' = Some []"
  then have "not_set (env ''SUPABASE_URL'') \<or> not_set (env ''SUPABASE_ANON_KEY'')"
    by (auto simp: not_set_def)
  then show "\<exists>m. load_config env = Inl (ValueError m)"
    by (rule load_config_missing)
next
  assume "env ''SUPABASE_URL'' = Some u \<and> u \<noteq> [] \<and> env ''SUPABASE_ANON_KEY'' = Some k \<and> k \<noteq> [] \<and>
      py_int (getenv_default env ''REQUEST_TIMEOUT'' ''30'') = Some t"
  then show "\<exists>cfg. load_config env = Inr cfg \<and> SUPABASE_URL cfg = u \<and> SUPABASE_ANON_KEY cfg = k
                  \<and> REQUEST_TIMEOUT cfg = t"
    using load_config_present [of env u k t] by simp
qed

text \<open>
  An environment without the base URL, and one with both settings and the timeout.
\<close>

theorem load_config_startup_witness:
  "(\<exists>m. load_config [''SUPABASE_ANON_KEY'' \<mapsto> ''key''] = Inl (ValueError m))
   \<and> (\<exists>cfg. load_config [''SUPABASE_URL'' \<mapsto> ''https://kb.example'', ''SUPABASE_ANON_KEY'' \<mapsto> ''key'',
                          ''REQUEST_TIMEOUT'' \<mapsto> ''30''] = Inr cfg
            \<and> SUPABASE_URL cfg = ''https://kb.example'' \<and> SUPABASE_ANON_KEY cfg = ''key''
            \<and> REQUEST_TIMEOUT cfg = 30)"
proof
  show "\<exists>m. load_config [''SUPABASE_ANON_KEY'' \<mapsto> ''key''] = Inl (ValueError m)"
    using load_config_startup [of "[''SUPABASE_ANON_KEY'' \<mapsto> ''key'']"] by simp
next
  show "\<exists>cfg. load_config [''SUPABASE_URL'' \<mapsto> ''https://kb.example'', ''SUPABASE_ANON_KEY'' \<mapsto> ''key'',
                          ''REQUEST_TIMEOUT'' \<mapsto> ''30''] = Inr cfg
            \<and> SUPABASE_URL cfg = ''https://kb.example'' \<and> SUPABASE_ANON_KEY cfg = ''key''
            \<and> REQUEST_TIMEOUT cfg = 30"
    using load_config_startup
      [of "[''SUPABASE_URL'' \<mapsto> ''https://kb.example'', ''SUPABASE_ANON_KEY'' \<mapsto> ''key'',
            ''REQUEST_TIMEOUT'' \<mapsto> ''30'']" "''https://kb.example''" "''key''" 30]
    by (simp add: getenv_default_def py_int_30)
qed

text \<open>
  As first stated, with presence of the two settings enough for startup to go on, the
  property does not hold: a base URL that is set to the empty string is present, and
  \<^verbatim>\<open>not SUPABASE_URL\<close> is true of it.
\<close>

theorem load_config_empty_url_counterexample:
  "[''SUPABASE_URL'' \<mapsto> [], ''SUPABASE_ANON_KEY'' \<mapsto> ''key''] ''SUPABASE_URL'' \<noteq> None
   \<and> [''SUPABASE_URL'' \<mapsto> [], ''SUPABASE_ANON_KEY'' \<mapsto> ''key''] ''SUPABASE_ANON_KEY'' \<noteq> None
   \<and> load_config [''SUPABASE_URL'' \<mapsto> [], ''SUPABASE_ANON_KEY'' \<mapsto> ''key''] =
       Inl (ValueError ''SUPABASE_URL and SUPABASE_ANON_KEY environment variables are required'')"
  by (simp add: load_config_def getenv_def getenv_default_def Let_def not_set_def py_int_30)

end
